theory Spec2Isabelle
  imports Main
begin

section \<open>The example script \<open>my_first_agent.py\<close>\<close>

text \<open>
  The script builds an agent, gives it a chat backend and a system prompt, registers a
  web-search tool when the environment holds a Tavily key, runs one query and prints the
  answer. The classes \<open>SpoonReactAI\<close>, \<open>ChatBot\<close>, \<open>ToolManager\<close> and \<open>MCPTool\<close>
  come from the framework \<open>spoon_ai\<close>, which the script imports. The objects the script
  builds with keyword arguments are records of those arguments; whether the constructors
  \<open>MCPTool\<close> and \<open>ToolManager\<close> return or raise is the framework's and a parameter, and so
  is the method \<open>run\<close>. The agent \<open>SpoonReactAI()\<close> returned and the chat backend
  \<open>ChatBot()\<close> returned are parameters too: the model starts when both calls have returned.
\<close>

subsection \<open>The process environment\<close>

text \<open>\<open>os.environ\<close>: the variables that are set, each with its string value.\<close>

type_synonym environ = "string \<rightharpoonup> string"

text \<open>What \<open>os.getenv\<close> returns: the string, or Python's \<open>None\<close> when the variable is unset.\<close>

datatype pyval = PyNone | PyStr string

definition getenv :: "environ \<Rightarrow> string \<Rightarrow> pyval" where
  "getenv environ key = (case environ key of None \<Rightarrow> PyNone | Some v \<Rightarrow> PyStr v)"

text \<open>The truth value Python's \<open>if\<close> gives such a value: \<open>None\<close> and \<open>""\<close> are false.\<close>

definition truthy :: "pyval \<Rightarrow> bool" where
  "truthy v = (case v of PyNone \<Rightarrow> False | PyStr s \<Rightarrow> s \<noteq> [])"

subsection \<open>The objects the script builds\<close>

text \<open>The dictionary passed as \<open>mcp_config\<close>, with its three keys.\<close>

record mcp_config_dict =
  command :: string
  args :: "string list"
  env :: "string \<rightharpoonup> pyval"

text \<open>\<open>MCPTool(name=..., description=..., mcp_config=...)\<close>.\<close>

record MCPTool =
  name :: string
  description :: string
  mcp_config :: mcp_config_dict

text \<open>\<open>ToolManager(tools)\<close>: the tools in the order given.\<close>

datatype ToolManager = ToolManager "MCPTool list"

text \<open>
  What the two constructors do with their arguments is not in the sources (\<open>MCPTool\<close>
  may, for one, look for the command it is to launch). Each call either raises, \<open>Some\<close>
  of the exception, or returns the object made of the arguments it was given, \<open>None\<close>.
\<close>

record 'e spoon_ai =
  MCPTool_init :: "MCPTool \<Rightarrow> 'e option"
  ToolManager_init :: "MCPTool list \<Rightarrow> 'e option"

text \<open>
  The attributes of the agent the script assigns. The record is extensible: whatever else
  the framework's agent holds is its \<open>more\<close> part.
\<close>

record 'llm agent =
  llm :: 'llm
  system_prompt :: string
  avaliable_tools :: ToolManager

text \<open>
  Modelled from the spec: the constructor \<open>SpoonReactAI()\<close> belongs to the framework and is
  not among the sources. The spec's provisioner "takes no action (tool set remains
  empty)" when the credential is absent, and its invariant has the tool set empty then: a
  fresh agent holds no tool. Its default backend and prompt are not specified; they are
  the parameters \<open>llm0\<close> and \<open>prompt0\<close>.
\<close>

definition SpoonReactAI :: "'llm \<Rightarrow> string \<Rightarrow> 'llm agent" where
  "SpoonReactAI llm0 prompt0 =
     \<lparr>llm = llm0, system_prompt = prompt0, avaliable_tools = ToolManager []\<rparr>"

subsection \<open>The body of \<open>main\<close>\<close>

text \<open>
  Lines 17 to 25: the arguments of the call \<open>MCPTool(...)\<close>, which reads the environment
  again; they are the tool when the call returns.
\<close>

definition search_tool :: "environ \<Rightarrow> MCPTool" where
  "search_tool environ =
     \<lparr>name = ''tavily-search'',
      description = ''Web search via Tavily MCP'',
      mcp_config =
        \<lparr>command = ''npx'',
         args = [''--yes'', ''tavily-mcp''],
         env = [''TAVILY_API_KEY'' \<mapsto> getenv environ ''TAVILY_API_KEY'']\<rparr>\<rparr>"

text \<open>
  Line 26, the assignment \<open>agent.avaliable_tools = ...\<close>, which the spec calls
  \<open>register_tools\<close>.
\<close>

definition register_tools ::
  "ToolManager \<Rightarrow> ('llm, 'z) agent_scheme \<Rightarrow> ('llm, 'z) agent_scheme" where
  "register_tools tools agent = agent\<lparr>avaliable_tools := tools\<rparr>"

text \<open>
  Lines 11 to 26: the agent as \<open>main\<close> has configured it when it calls \<open>run\<close>, or the
  exception that ended \<open>main\<close> before (\<open>Inl\<close>). \<open>agent0\<close> is what \<open>SpoonReactAI()\<close> returned
  and \<open>chatbot\<close> what \<open>ChatBot()\<close> returned. Line 26 is reached only when the call of
  line 17 has returned, and the assignment is made only when \<open>ToolManager\<close> has returned.
\<close>

definition main_agent ::
  "'e spoon_ai \<Rightarrow> environ \<Rightarrow> 'llm \<Rightarrow> ('llm, 'z) agent_scheme \<Rightarrow>
     'e + ('llm, 'z) agent_scheme" where
  "main_agent framework environ chatbot agent0 =
     (let agent = agent0\<lparr>llm := chatbot\<rparr>;
          agent = agent\<lparr>system_prompt := ''You are a helpful AI assistant.''\<rparr>
      in if truthy (getenv environ ''TAVILY_API_KEY'')
         then (case MCPTool_init framework (search_tool environ) of
                 Some e \<Rightarrow> Inl e
               | None \<Rightarrow>
                   (case ToolManager_init framework [search_tool environ] of
                      Some e \<Rightarrow> Inl e
                    | None \<Rightarrow> Inr (register_tools (ToolManager [search_tool environ]) agent)))
         else Inr agent)"

text \<open>\<open>print(res)\<close> writes the text and a newline to standard output.\<close>

definition print :: "string \<Rightarrow> string \<Rightarrow> string" where
  "print res out = out @ res @ [CHR 0x0A]"

text \<open>
  How a run of the script ends: what standard output holds, and the exception that left
  \<open>main\<close> uncaught, if any.
\<close>

record 'e outcome =
  stdout :: string
  uncaught :: "'e option"

text \<open>
  \<open>main\<close>, with \<open>run_impl\<close> the agent's method \<open>run\<close> (\<open>Inl\<close> when it raises) and \<open>out\<close>
  what standard output held before. The script has no \<open>try\<close>: an exception of a
  constructor ends \<open>main\<close> before \<open>run\<close>, and an exception of \<open>run\<close> ends it before
  \<open>print\<close>. \<open>main\<close> is the only task: \<open>await\<close> is a plain call, and \<open>asyncio.run(main())\<close>
  ends as \<open>main\<close> does.
\<close>

definition main ::
  "'e spoon_ai \<Rightarrow> (('llm, 'z) agent_scheme \<Rightarrow> string \<Rightarrow> 'e + string) \<Rightarrow> environ \<Rightarrow> 'llm \<Rightarrow>
     ('llm, 'z) agent_scheme \<Rightarrow> string \<Rightarrow> 'e outcome" where
  "main framework run_impl environ chatbot agent0 out =
     (case main_agent framework environ chatbot agent0 of
        Inl e \<Rightarrow> \<lparr>stdout = out, uncaught = Some e\<rparr>
      | Inr agent \<Rightarrow>
          (case run_impl agent ''Hello! What is SpoonOS?'' of
             Inl e \<Rightarrow> \<lparr>stdout = out, uncaught = Some e\<rparr>
           | Inr res \<Rightarrow> \<lparr>stdout = print res out, uncaught = None\<rparr>))"

subsection \<open>The agent's \<open>run\<close>, from its contract\<close>

text \<open>The failures the spec names for \<open>run\<close>.\<close>

datatype error = BackendUnavailable | ToolInvocationError

text \<open>
  A chat backend answers a request with a text, or cannot be reached (\<open>None\<close>).
\<close>

type_synonym chat_backend = "string \<Rightarrow> string option"

text \<open>
  Modelled from the spec: the method \<open>run\<close> of the framework's agent is not among the
  sources. The spec gives its contract: it "fails with \<open>BackendUnavailable\<close> if the chat
  backend cannot be reached; ... otherwise returns the final textual response", produced
  "using the configured chat backend". The reasoning loop and the invocation of tools
  are out of the spec's scope: here the agent puts the query to its backend once and the
  answer is the final response.
\<close>

definition run :: "(chat_backend, 'z) agent_scheme \<Rightarrow> string \<Rightarrow> error + string" where
  "run agent query =
     (case llm agent query of None \<Rightarrow> Inl BackendUnavailable | Some response \<Rightarrow> Inr response)"

section \<open>Reading the environment\<close>

lemma getenv_set: "environ key = Some v \<Longrightarrow> getenv environ key = PyStr v"
  by (simp add: getenv_def)

lemma getenv_unset: "environ key = None \<Longrightarrow> getenv environ key = PyNone"
  by (simp add: getenv_def)

lemma truthy_getenv:
  "truthy (getenv environ key) \<longleftrightarrow> (\<exists>v. environ key = Some v \<and> v \<noteq> [])"
  by (cases "environ key") (simp_all add: getenv_def truthy_def)

section \<open>The ways through the \<open>if\<close> of \<open>main\<close>\<close>

lemma main_agent_skips:
  "\<not> truthy (getenv environ ''TAVILY_API_KEY'') \<Longrightarrow>
   main_agent framework environ chatbot agent0 =
     Inr (agent0\<lparr>llm := chatbot, system_prompt := ''You are a helpful AI assistant.''\<rparr>)"
  by (simp add: main_agent_def)

lemma main_agent_registers:
  "truthy (getenv environ ''TAVILY_API_KEY'') \<Longrightarrow>
   MCPTool_init framework (search_tool environ) = None \<Longrightarrow>
   ToolManager_init framework [search_tool environ] = None \<Longrightarrow>
   main_agent framework environ chatbot agent0 =
     Inr (register_tools (ToolManager [search_tool environ])
       (agent0\<lparr>llm := chatbot, system_prompt := ''You are a helpful AI assistant.''\<rparr>))"
  by (simp add: main_agent_def)

lemma main_agent_tool_raises:
  "truthy (getenv environ ''TAVILY_API_KEY'') \<Longrightarrow>
   MCPTool_init framework (search_tool environ) = Some e \<Longrightarrow>
   main_agent framework environ chatbot agent0 = Inl e"
  by (simp add: main_agent_def)

lemma main_agent_manager_raises:
  "truthy (getenv environ ''TAVILY_API_KEY'') \<Longrightarrow>
   MCPTool_init framework (search_tool environ) = None \<Longrightarrow>
   ToolManager_init framework [search_tool environ] = Some e \<Longrightarrow>
   main_agent framework environ chatbot agent0 = Inl e"
  by (simp add: main_agent_def)

text \<open>What is known when the configuration has returned, and when it has raised.\<close>

lemma main_agent_returned:
  assumes "main_agent framework environ chatbot agent0 = Inr agent"
  shows "(truthy (getenv environ ''TAVILY_API_KEY'') \<and>
          MCPTool_init framework (search_tool environ) = None \<and>
          ToolManager_init framework [search_tool environ] = None \<and>
          agent = register_tools (ToolManager [search_tool environ])
            (agent0\<lparr>llm := chatbot, system_prompt := ''You are a helpful AI assistant.''\<rparr>)) \<or>
         (\<not> truthy (getenv environ ''TAVILY_API_KEY'') \<and>
          agent = agent0\<lparr>llm := chatbot, system_prompt := ''You are a helpful AI assistant.''\<rparr>)"
proof (cases "truthy (getenv environ ''TAVILY_API_KEY'')")
  case False
  with assms show ?thesis
    by (simp add: main_agent_skips)
next
  case True
  show ?thesis
  proof (cases "MCPTool_init framework (search_tool environ)")
    case (Some e)
    with True assms show ?thesis
      by (simp add: main_agent_tool_raises)
  next
    case None
    show ?thesis
    proof (cases "ToolManager_init framework [search_tool environ]")
      case (Some e)
      with True None assms show ?thesis
        by (simp add: main_agent_manager_raises)
    next
      case none: None
      with True None assms show ?thesis
        by (simp add: main_agent_registers)
    qed
  qed
qed

lemma main_agent_raised:
  "main_agent framework environ chatbot agent0 = Inl e \<longleftrightarrow>
     truthy (getenv environ ''TAVILY_API_KEY'') \<and>
     (MCPTool_init framework (search_tool environ) = Some e \<or>
      MCPTool_init framework (search_tool environ) = None \<and>
      ToolManager_init framework [search_tool environ] = Some e)"
proof (cases "truthy (getenv environ ''TAVILY_API_KEY'')")
  case False
  then show ?thesis
    by (simp add: main_agent_skips)
next
  case True
  show ?thesis
  proof (cases "MCPTool_init framework (search_tool environ)")
    case (Some e')
    with True show ?thesis
      by (simp add: main_agent_tool_raises)
  next
    case None
    show ?thesis
    proof (cases "ToolManager_init framework [search_tool environ]")
      case (Some e')
      with True None show ?thesis
        by (simp add: main_agent_manager_raises)
    next
      case none: None
      with True None show ?thesis
        by (simp add: main_agent_registers)
    qed
  qed
qed

section \<open>The tool set and the credential\<close>

text \<open>
  C1: when \<open>TAVILY_API_KEY\<close> is unset, the configuration returns, whatever the framework's
  constructors would do, and the agent that \<open>main\<close> runs holds no tool; put the other way
  round, the agent holds a tool only if the variable was set. The agent starts as the
  fresh agent of \<open>SpoonReactAI\<close>, whose tool set is empty.
\<close>

theorem tool_set_empty_unless_credential:
  "(environ ''TAVILY_API_KEY'' = None \<longrightarrow>
      main_agent framework environ chatbot (SpoonReactAI llm0 prompt0) =
        Inr ((SpoonReactAI llm0 prompt0)
          \<lparr>llm := chatbot, system_prompt := ''You are a helpful AI assistant.''\<rparr>) \<and>
      avaliable_tools ((SpoonReactAI llm0 prompt0)
          \<lparr>llm := chatbot, system_prompt := ''You are a helpful AI assistant.''\<rparr>) =
        ToolManager []) \<and>
   (main_agent framework environ chatbot (SpoonReactAI llm0 prompt0) = Inr agent \<longrightarrow>
      avaliable_tools agent \<noteq> ToolManager [] \<longrightarrow> environ ''TAVILY_API_KEY'' \<noteq> None)"
proof -
  have unset: "main_agent framework environ chatbot (SpoonReactAI llm0 prompt0) =
      Inr ((SpoonReactAI llm0 prompt0)
        \<lparr>llm := chatbot, system_prompt := ''You are a helpful AI assistant.''\<rparr>)"
    if "environ ''TAVILY_API_KEY'' = None"
  proof -
    from that have "\<not> truthy (getenv environ ''TAVILY_API_KEY'')"
      by (simp add: getenv_unset truthy_def)
    then show ?thesis
      by (rule main_agent_skips)
  qed
  have empty: "avaliable_tools ((SpoonReactAI llm0 prompt0)
      \<lparr>llm := chatbot, system_prompt := ''You are a helpful AI assistant.''\<rparr>) = ToolManager []"
    by (simp add: SpoonReactAI_def)
  have "environ ''TAVILY_API_KEY'' \<noteq> None"
    if "main_agent framework environ chatbot (SpoonReactAI llm0 prompt0) = Inr agent"
      and "avaliable_tools agent \<noteq> ToolManager []"
  proof
    assume "environ ''TAVILY_API_KEY'' = None"
    with unset that(1) have "agent = (SpoonReactAI llm0 prompt0)
        \<lparr>llm := chatbot, system_prompt := ''You are a helpful AI assistant.''\<rparr>"
      by simp
    with empty that(2) show False
      by simp
  qed
  with unset empty show ?thesis
    by blast
qed

text \<open>
  With an empty environment and constructors that would raise, no tool is held; with the
  key \<open>"abc123"\<close> and constructors that return, a tool is held, and the variable is set.
\<close>

theorem tool_set_empty_unless_credential_witness:
  "Map.empty ''TAVILY_API_KEY'' = (None :: string option) \<and>
   main_agent
       \<lparr>MCPTool_init = \<lambda>tool. Some ''ValueError'', ToolManager_init = \<lambda>tools. Some ''TypeError''\<rparr>
       Map.empty () (SpoonReactAI () '''') =
     Inr \<lparr>llm = (), system_prompt = ''You are a helpful AI assistant.'',
          avaliable_tools = ToolManager []\<rparr> \<and>
   main_agent
       \<lparr>MCPTool_init = \<lambda>tool. None :: string option, ToolManager_init = \<lambda>tools. None\<rparr>
       [''TAVILY_API_KEY'' \<mapsto> ''abc123''] () (SpoonReactAI () '''') =
     Inr \<lparr>llm = (), system_prompt = ''You are a helpful AI assistant.'',
          avaliable_tools = ToolManager [search_tool [''TAVILY_API_KEY'' \<mapsto> ''abc123'']]\<rparr> \<and>
   ToolManager [search_tool [''TAVILY_API_KEY'' \<mapsto> ''abc123'']] \<noteq> ToolManager [] \<and>
   [''TAVILY_API_KEY'' \<mapsto> ''abc123''] ''TAVILY_API_KEY'' \<noteq> None"
proof -
  have held: "main_agent
       \<lparr>MCPTool_init = \<lambda>tool. None :: string option, ToolManager_init = \<lambda>tools. None\<rparr>
       [''TAVILY_API_KEY'' \<mapsto> ''abc123''] () (SpoonReactAI () '''') =
     Inr \<lparr>llm = (), system_prompt = ''You are a helpful AI assistant.'',
          avaliable_tools = ToolManager [search_tool [''TAVILY_API_KEY'' \<mapsto> ''abc123'']]\<rparr>"
    by (simp add: main_agent_def getenv_def truthy_def register_tools_def SpoonReactAI_def)
  show ?thesis
    using held
      tool_set_empty_unless_credential [of Map.empty
        "\<lparr>MCPTool_init = \<lambda>tool. Some ''ValueError'',
          ToolManager_init = \<lambda>tools. Some ''TypeError''\<rparr>" "()" "()" "''''"]
      tool_set_empty_unless_credential [of "[''TAVILY_API_KEY'' \<mapsto> ''abc123'']"
        "\<lparr>MCPTool_init = \<lambda>tool. None :: string option,
          ToolManager_init = \<lambda>tools. None\<rparr>" "()" "()" "''''"
        "\<lparr>llm = (), system_prompt = ''You are a helpful AI assistant.'',
          avaliable_tools = ToolManager [search_tool [''TAVILY_API_KEY'' \<mapsto> ''abc123'']]\<rparr>"]
    by (simp add: SpoonReactAI_def)
qed

text \<open>
  C9: when the variable is unset the script does not assign \<open>avaliable_tools\<close>: the
  configuration returns the agent with the tool set it came with, whatever that is.
  Whenever the configuration returns, in either branch, \<open>llm\<close> is the chat backend,
  \<open>system_prompt\<close> is the fixed prompt, and the rest of the agent is as it was.
\<close>

theorem absent_credential_keeps_tools:
  "(environ ''TAVILY_API_KEY'' = None \<longrightarrow>
      main_agent framework environ chatbot agent0 =
        Inr (agent0\<lparr>llm := chatbot, system_prompt := ''You are a helpful AI assistant.''\<rparr>) \<and>
      avaliable_tools
        (agent0\<lparr>llm := chatbot, system_prompt := ''You are a helpful AI assistant.''\<rparr>) =
        avaliable_tools agent0) \<and>
   (main_agent framework environ chatbot agent0 = Inr agent \<longrightarrow>
      llm agent = chatbot \<and>
      system_prompt agent = ''You are a helpful AI assistant.'' \<and>
      agent.more agent = agent.more agent0)"
proof -
  have keep: "main_agent framework environ chatbot agent0 =
      Inr (agent0\<lparr>llm := chatbot, system_prompt := ''You are a helpful AI assistant.''\<rparr>)"
    if "environ ''TAVILY_API_KEY'' = None"
    using that by (simp add: main_agent_skips getenv_unset truthy_def)
  have assigned:
    "llm agent = chatbot \<and>
     system_prompt agent = ''You are a helpful AI assistant.'' \<and>
     agent.more agent = agent.more agent0"
    if "main_agent framework environ chatbot agent0 = Inr agent"
    using main_agent_returned [OF that] by (auto simp: register_tools_def)
  from keep assigned show ?thesis
    by simp
qed

text \<open>
  An agent that comes with a calculator keeps it when the variable is unset; with the key
  set it gets the same backend and prompt.
\<close>

theorem absent_credential_keeps_tools_witness:
  "Map.empty ''TAVILY_API_KEY'' = (None :: string option) \<and>
   main_agent
       \<lparr>MCPTool_init = \<lambda>tool. Some ''ValueError'', ToolManager_init = \<lambda>tools. Some ''TypeError''\<rparr>
       Map.empty ''backend''
       \<lparr>llm = ''default'', system_prompt = ''default prompt'',
        avaliable_tools = ToolManager
          [\<lparr>name = ''calculator'', description = ''Adds numbers'',
            mcp_config = \<lparr>command = ''calc'', args = [], env = Map.empty\<rparr>\<rparr>]\<rparr> =
     Inr \<lparr>llm = ''backend'', system_prompt = ''You are a helpful AI assistant.'',
        avaliable_tools = ToolManager
          [\<lparr>name = ''calculator'', description = ''Adds numbers'',
            mcp_config = \<lparr>command = ''calc'', args = [], env = Map.empty\<rparr>\<rparr>]\<rparr> \<and>
   main_agent
       \<lparr>MCPTool_init = \<lambda>tool. None :: string option, ToolManager_init = \<lambda>tools. None\<rparr>
       [''TAVILY_API_KEY'' \<mapsto> ''abc123''] ''backend''
       \<lparr>llm = ''default'', system_prompt = ''default prompt'',
        avaliable_tools = ToolManager []\<rparr> =
     Inr \<lparr>llm = ''backend'', system_prompt = ''You are a helpful AI assistant.'',
        avaliable_tools = ToolManager [search_tool [''TAVILY_API_KEY'' \<mapsto> ''abc123'']]\<rparr>"
proof -
  have set: "main_agent
       \<lparr>MCPTool_init = \<lambda>tool. None :: string option, ToolManager_init = \<lambda>tools. None\<rparr>
       [''TAVILY_API_KEY'' \<mapsto> ''abc123''] ''backend''
       \<lparr>llm = ''default'', system_prompt = ''default prompt'',
        avaliable_tools = ToolManager []\<rparr> =
     Inr \<lparr>llm = ''backend'', system_prompt = ''You are a helpful AI assistant.'',
        avaliable_tools = ToolManager [search_tool [''TAVILY_API_KEY'' \<mapsto> ''abc123'']]\<rparr>"
    by (simp add: main_agent_def getenv_def truthy_def register_tools_def)
  show ?thesis
    using set
      absent_credential_keeps_tools [of Map.empty
        "\<lparr>MCPTool_init = \<lambda>tool. Some ''ValueError'',
          ToolManager_init = \<lambda>tools. Some ''TypeError''\<rparr>" "''backend''"
        "\<lparr>llm = ''default'', system_prompt = ''default prompt'',
          avaliable_tools = ToolManager
            [\<lparr>name = ''calculator'', description = ''Adds numbers'',
              mcp_config = \<lparr>command = ''calc'', args = [], env = Map.empty\<rparr>\<rparr>]\<rparr>"
        "\<lparr>llm = ''backend'', system_prompt = ''You are a helpful AI assistant.'',
          avaliable_tools = ToolManager
            [\<lparr>name = ''calculator'', description = ''Adds numbers'',
              mcp_config = \<lparr>command = ''calc'', args = [], env = Map.empty\<rparr>\<rparr>]\<rparr>"]
    by simp
qed

text \<open>
  C8: when the variable is set to the empty string, the test of the \<open>if\<close> is false: no
  constructor is called, the agent gets its backend and prompt and nothing else, and its
  tool set is the one it came with.
\<close>

theorem empty_credential_registers_nothing:
  "environ ''TAVILY_API_KEY'' = Some [] \<Longrightarrow>
   \<not> truthy (getenv environ ''TAVILY_API_KEY'') \<and>
   main_agent framework environ chatbot agent0 =
     Inr (agent0\<lparr>llm := chatbot, system_prompt := ''You are a helpful AI assistant.''\<rparr>) \<and>
   avaliable_tools
     (agent0\<lparr>llm := chatbot, system_prompt := ''You are a helpful AI assistant.''\<rparr>) =
     avaliable_tools agent0"
  by (simp add: main_agent_def getenv_set truthy_def)

theorem empty_credential_registers_nothing_witness:
  "[''TAVILY_API_KEY'' \<mapsto> ''''] ''TAVILY_API_KEY'' = Some [] \<and>
   \<not> truthy (getenv [''TAVILY_API_KEY'' \<mapsto> ''''] ''TAVILY_API_KEY'') \<and>
   main_agent
       \<lparr>MCPTool_init = \<lambda>tool. Some ''ValueError'', ToolManager_init = \<lambda>tools. Some ''TypeError''\<rparr>
       [''TAVILY_API_KEY'' \<mapsto> ''''] ()
       \<lparr>llm = (), system_prompt = '''', avaliable_tools = ToolManager []\<rparr> =
     Inr \<lparr>llm = (), system_prompt = ''You are a helpful AI assistant.'',
      avaliable_tools = ToolManager []\<rparr>"
  using empty_credential_registers_nothing [of "[''TAVILY_API_KEY'' \<mapsto> '''']"
      "\<lparr>MCPTool_init = \<lambda>tool. Some ''ValueError'',
          ToolManager_init = \<lambda>tools. Some ''TypeError''\<rparr>" "()"
      "\<lparr>llm = (), system_prompt = '''', avaliable_tools = ToolManager []\<rparr>"]
  by simp

section \<open>The search tool\<close>

text \<open>
  C2: when the variable holds a non-empty value \<open>v\<close>, the descriptor the script builds,
  the one tool of the agent whenever the configuration returns, has the environment
  mapping exactly \<open>{"TAVILY_API_KEY": v}\<close>, the command \<open>"npx"\<close> and the arguments
  \<open>["--yes", "tavily-mcp"]\<close>.
\<close>

theorem search_tool_launch_spec:
  "environ ''TAVILY_API_KEY'' = Some v \<Longrightarrow> v \<noteq> [] \<Longrightarrow>
   (main_agent framework environ chatbot agent0 = Inr agent \<longrightarrow>
      avaliable_tools agent = ToolManager [search_tool environ]) \<and>
   env (mcp_config (search_tool environ)) = [''TAVILY_API_KEY'' \<mapsto> PyStr v] \<and>
   command (mcp_config (search_tool environ)) = ''npx'' \<and>
   args (mcp_config (search_tool environ)) = [''--yes'', ''tavily-mcp'']"
proof -
  assume key: "environ ''TAVILY_API_KEY'' = Some v" "v \<noteq> []"
  then have test: "truthy (getenv environ ''TAVILY_API_KEY'')"
    by (simp add: getenv_set truthy_def)
  have "avaliable_tools agent = ToolManager [search_tool environ]"
    if "main_agent framework environ chatbot agent0 = Inr agent"
    using main_agent_returned [OF that] test by (auto simp: register_tools_def)
  moreover have
    "env (mcp_config (search_tool environ)) = [''TAVILY_API_KEY'' \<mapsto> PyStr v] \<and>
     command (mcp_config (search_tool environ)) = ''npx'' \<and>
     args (mcp_config (search_tool environ)) = [''--yes'', ''tavily-mcp'']"
    using key by (simp add: search_tool_def getenv_set)
  ultimately show ?thesis
    by simp
qed

theorem search_tool_launch_spec_witness:
  "[''TAVILY_API_KEY'' \<mapsto> ''abc123''] ''TAVILY_API_KEY'' = Some ''abc123'' \<and>
   ''abc123'' \<noteq> [] \<and>
   main_agent
       \<lparr>MCPTool_init = \<lambda>tool. None :: string option, ToolManager_init = \<lambda>tools. None\<rparr>
       [''TAVILY_API_KEY'' \<mapsto> ''abc123''] ()
       \<lparr>llm = (), system_prompt = '''', avaliable_tools = ToolManager []\<rparr> =
     Inr \<lparr>llm = (), system_prompt = ''You are a helpful AI assistant.'',
          avaliable_tools = ToolManager [search_tool [''TAVILY_API_KEY'' \<mapsto> ''abc123'']]\<rparr> \<and>
   env (mcp_config (search_tool [''TAVILY_API_KEY'' \<mapsto> ''abc123''])) =
     [''TAVILY_API_KEY'' \<mapsto> PyStr ''abc123''] \<and>
   command (mcp_config (search_tool [''TAVILY_API_KEY'' \<mapsto> ''abc123''])) = ''npx'' \<and>
   args (mcp_config (search_tool [''TAVILY_API_KEY'' \<mapsto> ''abc123''])) = [''--yes'', ''tavily-mcp'']"
proof -
  have returned: "main_agent
       \<lparr>MCPTool_init = \<lambda>tool. None :: string option, ToolManager_init = \<lambda>tools. None\<rparr>
       [''TAVILY_API_KEY'' \<mapsto> ''abc123''] ()
       \<lparr>llm = (), system_prompt = '''', avaliable_tools = ToolManager []\<rparr> =
     Inr \<lparr>llm = (), system_prompt = ''You are a helpful AI assistant.'',
          avaliable_tools = ToolManager [search_tool [''TAVILY_API_KEY'' \<mapsto> ''abc123'']]\<rparr>"
    by (simp add: main_agent_def getenv_def truthy_def register_tools_def)
  show ?thesis
    using returned
      search_tool_launch_spec [of "[''TAVILY_API_KEY'' \<mapsto> ''abc123'']" "''abc123''"
        "\<lparr>MCPTool_init = \<lambda>tool. None :: string option, ToolManager_init = \<lambda>tools. None\<rparr>"
        "()" "\<lparr>llm = (), system_prompt = '''', avaliable_tools = ToolManager []\<rparr>"
        "\<lparr>llm = (), system_prompt = ''You are a helpful AI assistant.'',
          avaliable_tools = ToolManager [search_tool [''TAVILY_API_KEY'' \<mapsto> ''abc123'']]\<rparr>"]
    by simp
qed

text \<open>
  C10: for non-empty values of the variable, the descriptor the script builds, the one
  tool of the agent whenever the configuration returns, is named \<open>"tavily-search"\<close> and
  described as \<open>"Web search via Tavily MCP"\<close>; the descriptor built for another non-empty
  value \<open>v'\<close> is the same descriptor with \<open>v'\<close> in its environment mapping.
\<close>

theorem search_tool_name_and_description:
  "environ ''TAVILY_API_KEY'' = Some v \<Longrightarrow> v \<noteq> [] \<Longrightarrow>
   environ' ''TAVILY_API_KEY'' = Some v' \<Longrightarrow> v' \<noteq> [] \<Longrightarrow>
   (main_agent framework environ chatbot agent0 = Inr agent \<longrightarrow>
      avaliable_tools agent = ToolManager [search_tool environ]) \<and>
   name (search_tool environ) = ''tavily-search'' \<and>
   description (search_tool environ) = ''Web search via Tavily MCP'' \<and>
   search_tool environ' =
     (search_tool environ)
       \<lparr>mcp_config := (mcp_config (search_tool environ))
          \<lparr>env := [''TAVILY_API_KEY'' \<mapsto> PyStr v']\<rparr>\<rparr>"
proof -
  assume key: "environ ''TAVILY_API_KEY'' = Some v" "v \<noteq> []"
    and key': "environ' ''TAVILY_API_KEY'' = Some v'" "v' \<noteq> []"
  from key have test: "truthy (getenv environ ''TAVILY_API_KEY'')"
    by (simp add: getenv_set truthy_def)
  have "avaliable_tools agent = ToolManager [search_tool environ]"
    if "main_agent framework environ chatbot agent0 = Inr agent"
    using main_agent_returned [OF that] test by (auto simp: register_tools_def)
  moreover have
    "name (search_tool environ) = ''tavily-search'' \<and>
     description (search_tool environ) = ''Web search via Tavily MCP'' \<and>
     search_tool environ' =
       (search_tool environ)
         \<lparr>mcp_config := (mcp_config (search_tool environ))
            \<lparr>env := [''TAVILY_API_KEY'' \<mapsto> PyStr v']\<rparr>\<rparr>"
    using key key' by (simp add: search_tool_def getenv_set)
  ultimately show ?thesis
    by simp
qed

theorem search_tool_name_and_description_witness:
  "[''TAVILY_API_KEY'' \<mapsto> ''abc123''] ''TAVILY_API_KEY'' = Some ''abc123'' \<and>
   ''abc123'' \<noteq> [] \<and>
   [''TAVILY_API_KEY'' \<mapsto> ''xyz''] ''TAVILY_API_KEY'' = Some ''xyz'' \<and>
   ''xyz'' \<noteq> [] \<and>
   main_agent
       \<lparr>MCPTool_init = \<lambda>tool. None :: string option, ToolManager_init = \<lambda>tools. None\<rparr>
       [''TAVILY_API_KEY'' \<mapsto> ''abc123''] ()
       \<lparr>llm = (), system_prompt = '''', avaliable_tools = ToolManager []\<rparr> =
     Inr \<lparr>llm = (), system_prompt = ''You are a helpful AI assistant.'',
          avaliable_tools = ToolManager [search_tool [''TAVILY_API_KEY'' \<mapsto> ''abc123'']]\<rparr> \<and>
   name (search_tool [''TAVILY_API_KEY'' \<mapsto> ''abc123'']) = ''tavily-search'' \<and>
   description (search_tool [''TAVILY_API_KEY'' \<mapsto> ''abc123'']) = ''Web search via Tavily MCP'' \<and>
   search_tool [''TAVILY_API_KEY'' \<mapsto> ''xyz''] =
     (search_tool [''TAVILY_API_KEY'' \<mapsto> ''abc123''])
       \<lparr>mcp_config := (mcp_config (search_tool [''TAVILY_API_KEY'' \<mapsto> ''abc123'']))
          \<lparr>env := [''TAVILY_API_KEY'' \<mapsto> PyStr ''xyz'']\<rparr>\<rparr>"
proof -
  have returned: "main_agent
       \<lparr>MCPTool_init = \<lambda>tool. None :: string option, ToolManager_init = \<lambda>tools. None\<rparr>
       [''TAVILY_API_KEY'' \<mapsto> ''abc123''] ()
       \<lparr>llm = (), system_prompt = '''', avaliable_tools = ToolManager []\<rparr> =
     Inr \<lparr>llm = (), system_prompt = ''You are a helpful AI assistant.'',
          avaliable_tools = ToolManager [search_tool [''TAVILY_API_KEY'' \<mapsto> ''abc123'']]\<rparr>"
    by (simp add: main_agent_def getenv_def truthy_def register_tools_def)
  show ?thesis
    using returned
      search_tool_name_and_description [of "[''TAVILY_API_KEY'' \<mapsto> ''abc123'']" "''abc123''"
        "[''TAVILY_API_KEY'' \<mapsto> ''xyz'']" "''xyz''"
        "\<lparr>MCPTool_init = \<lambda>tool. None :: string option, ToolManager_init = \<lambda>tools. None\<rparr>"
        "()" "\<lparr>llm = (), system_prompt = '''', avaliable_tools = ToolManager []\<rparr>"
        "\<lparr>llm = (), system_prompt = ''You are a helpful AI assistant.'',
          avaliable_tools = ToolManager [search_tool [''TAVILY_API_KEY'' \<mapsto> ''abc123'']]\<rparr>"]
    by simp
qed

section \<open>Registering tools\<close>

text \<open>
  C7: registering a tool set replaces the current one wholesale. After registering \<open>A\<close>
  and then \<open>B\<close> the agent holds exactly \<open>B\<close>, and it is the agent that registering \<open>B\<close>
  alone gives: nothing of \<open>A\<close> is kept.
\<close>

theorem register_tools_replaces:
  "avaliable_tools (register_tools B (register_tools A agent)) = B \<and>
   register_tools B (register_tools A agent) = register_tools B agent"
  by (simp add: register_tools_def)

text \<open>
  C3, as stated, fails twice. A variable set to the empty string is present, and the
  script registers nothing for it, even with constructors that return: the tool set stays
  empty, so it is not the single-element collection holding the descriptor. And with the
  key \<open>"abc123"\<close> on a machine where \<open>MCPTool\<close> raises for the command \<open>"npx"\<close>, the
  configuration ends with that exception and no agent with a tool registered.
\<close>

theorem empty_credential_is_present_without_tool:
  "[''TAVILY_API_KEY'' \<mapsto> ''''] ''TAVILY_API_KEY'' \<noteq> None \<and>
   main_agent
       \<lparr>MCPTool_init = \<lambda>tool. None :: string option, ToolManager_init = \<lambda>tools. None\<rparr>
       [''TAVILY_API_KEY'' \<mapsto> ''''] ()
       \<lparr>llm = (), system_prompt = '''', avaliable_tools = ToolManager []\<rparr> =
     Inr \<lparr>llm = (), system_prompt = ''You are a helpful AI assistant.'',
          avaliable_tools = ToolManager []\<rparr> \<and>
   ToolManager [] \<noteq> ToolManager [search_tool [''TAVILY_API_KEY'' \<mapsto> '''']] \<and>
   [''TAVILY_API_KEY'' \<mapsto> ''abc123''] ''TAVILY_API_KEY'' = Some ''abc123'' \<and>
   main_agent
       \<lparr>MCPTool_init =
          \<lambda>tool. if command (mcp_config tool) = ''npx'' then Some ''ValueError'' else None,
        ToolManager_init = \<lambda>tools. None\<rparr>
       [''TAVILY_API_KEY'' \<mapsto> ''abc123''] ()
       \<lparr>llm = (), system_prompt = '''', avaliable_tools = ToolManager []\<rparr> =
     Inl ''ValueError''"
  by (simp add: main_agent_def getenv_def truthy_def search_tool_def)

text \<open>
  C3, amended: when the variable is set to a non-empty value, the script builds one
  descriptor and calls \<open>MCPTool\<close> and then \<open>ToolManager\<close> with it. When both calls return,
  the agent is the one with backend and prompt assigned on which the single-element tool
  set is registered, and its tool set is exactly that single-element collection, whatever
  tools the agent came with. When one of the calls raises, the configuration ends with that
  exception.
\<close>

theorem credential_registers_single_tool:
  "environ ''TAVILY_API_KEY'' = Some v \<Longrightarrow> v \<noteq> [] \<Longrightarrow>
   (MCPTool_init framework (search_tool environ) = None \<longrightarrow>
    ToolManager_init framework [search_tool environ] = None \<longrightarrow>
      main_agent framework environ chatbot agent0 =
        Inr (register_tools (ToolManager [search_tool environ])
          (agent0\<lparr>llm := chatbot, system_prompt := ''You are a helpful AI assistant.''\<rparr>)) \<and>
      avaliable_tools (register_tools (ToolManager [search_tool environ])
          (agent0\<lparr>llm := chatbot, system_prompt := ''You are a helpful AI assistant.''\<rparr>)) =
        ToolManager [search_tool environ]) \<and>
   (MCPTool_init framework (search_tool environ) = Some e \<longrightarrow>
      main_agent framework environ chatbot agent0 = Inl e) \<and>
   (MCPTool_init framework (search_tool environ) = None \<longrightarrow>
    ToolManager_init framework [search_tool environ] = Some e \<longrightarrow>
      main_agent framework environ chatbot agent0 = Inl e)"
proof -
  assume "environ ''TAVILY_API_KEY'' = Some v" and "v \<noteq> []"
  then have test: "truthy (getenv environ ''TAVILY_API_KEY'')"
    by (simp add: getenv_set truthy_def)
  have "avaliable_tools (register_tools (ToolManager [search_tool environ])
      (agent0\<lparr>llm := chatbot, system_prompt := ''You are a helpful AI assistant.''\<rparr>)) =
    ToolManager [search_tool environ]"
    by (simp add: register_tools_def)
  with test show ?thesis
    by (simp add: main_agent_registers main_agent_tool_raises main_agent_manager_raises)
qed

text \<open>
  An agent that comes with a calculator holds the search tool alone afterwards; where
  \<open>MCPTool\<close> raises for \<open>"npx"\<close>, or \<open>ToolManager\<close> raises, the configuration ends with
  the exception.
\<close>

theorem credential_registers_single_tool_witness:
  "[''TAVILY_API_KEY'' \<mapsto> ''abc123''] ''TAVILY_API_KEY'' = Some ''abc123'' \<and>
   ''abc123'' \<noteq> [] \<and>
   main_agent
       \<lparr>MCPTool_init = \<lambda>tool. None :: string option, ToolManager_init = \<lambda>tools. None\<rparr>
       [''TAVILY_API_KEY'' \<mapsto> ''abc123''] ()
       \<lparr>llm = (), system_prompt = '''',
        avaliable_tools = ToolManager
          [\<lparr>name = ''calculator'', description = ''Adds numbers'',
            mcp_config = \<lparr>command = ''calc'', args = [], env = Map.empty\<rparr>\<rparr>]\<rparr> =
     Inr \<lparr>llm = (), system_prompt = ''You are a helpful AI assistant.'',
          avaliable_tools = ToolManager [search_tool [''TAVILY_API_KEY'' \<mapsto> ''abc123'']]\<rparr> \<and>
   main_agent
       \<lparr>MCPTool_init =
          \<lambda>tool. if command (mcp_config tool) = ''npx'' then Some ''ValueError'' else None,
        ToolManager_init = \<lambda>tools. None\<rparr>
       [''TAVILY_API_KEY'' \<mapsto> ''abc123''] ()
       \<lparr>llm = (), system_prompt = '''', avaliable_tools = ToolManager []\<rparr> =
     Inl ''ValueError'' \<and>
   main_agent
       \<lparr>MCPTool_init = \<lambda>tool. None, ToolManager_init = \<lambda>tools. Some ''TypeError''\<rparr>
       [''TAVILY_API_KEY'' \<mapsto> ''abc123''] ()
       \<lparr>llm = (), system_prompt = '''', avaliable_tools = ToolManager []\<rparr> =
     Inl ''TypeError''"
  using
    credential_registers_single_tool [of "[''TAVILY_API_KEY'' \<mapsto> ''abc123'']" "''abc123''"
      "\<lparr>MCPTool_init = \<lambda>tool. None :: string option, ToolManager_init = \<lambda>tools. None\<rparr>"
      "()"
      "\<lparr>llm = (), system_prompt = '''',
        avaliable_tools = ToolManager
          [\<lparr>name = ''calculator'', description = ''Adds numbers'',
            mcp_config = \<lparr>command = ''calc'', args = [], env = Map.empty\<rparr>\<rparr>]\<rparr>"]
    credential_registers_single_tool [of "[''TAVILY_API_KEY'' \<mapsto> ''abc123'']" "''abc123''"
      "\<lparr>MCPTool_init =
          \<lambda>tool. if command (mcp_config tool) = ''npx'' then Some ''ValueError'' else None,
        ToolManager_init = \<lambda>tools. None\<rparr>"
      "()" "\<lparr>llm = (), system_prompt = '''', avaliable_tools = ToolManager []\<rparr>"
      "''ValueError''"]
    credential_registers_single_tool [of "[''TAVILY_API_KEY'' \<mapsto> ''abc123'']" "''abc123''"
      "\<lparr>MCPTool_init = \<lambda>tool. None, ToolManager_init = \<lambda>tools. Some ''TypeError''\<rparr>"
      "()" "\<lparr>llm = (), system_prompt = '''', avaliable_tools = ToolManager []\<rparr>"
      "''TypeError''"]
  by (simp add: register_tools_def search_tool_def)

section \<open>Running the query\<close>

text \<open>
  C4, as stated, fails: with the key \<open>"abc123"\<close> on a machine where \<open>MCPTool\<close> raises for
  the command \<open>"npx"\<close>, the configuration raises; \<open>main\<close> ends with that exception
  uncaught, though \<open>run\<close> would have answered, and prints nothing.
\<close>

theorem tool_constructor_failure_ends_main:
  "[''TAVILY_API_KEY'' \<mapsto> ''abc123''] ''TAVILY_API_KEY'' = Some ''abc123'' \<and>
   main_agent
       \<lparr>MCPTool_init =
          \<lambda>tool. if command (mcp_config tool) = ''npx'' then Some ''ValueError'' else None,
        ToolManager_init = \<lambda>tools. None\<rparr>
       [''TAVILY_API_KEY'' \<mapsto> ''abc123''] ()
       \<lparr>llm = (), system_prompt = '''', avaliable_tools = ToolManager []\<rparr> =
     Inl ''ValueError'' \<and>
   main
       \<lparr>MCPTool_init =
          \<lambda>tool. if command (mcp_config tool) = ''npx'' then Some ''ValueError'' else None,
        ToolManager_init = \<lambda>tools. None\<rparr>
       (\<lambda>agent query. Inr ''SpoonOS is an agent framework.'')
       [''TAVILY_API_KEY'' \<mapsto> ''abc123''] ()
       \<lparr>llm = (), system_prompt = '''', avaliable_tools = ToolManager []\<rparr> '''' =
     \<lparr>stdout = '''', uncaught = Some ''ValueError''\<rparr>"
  by (simp add: main_def main_agent_def getenv_def truthy_def search_tool_def)

text \<open>
  C4, amended: the configuration raises nothing of its own, in any environment. With the
  variable unset or empty it calls no constructor and returns the agent with backend and
  prompt assigned: absence is a valid, silent path. It raises \<open>e\<close> exactly when the
  variable is non-empty and \<open>MCPTool\<close> raises \<open>e\<close>, or \<open>MCPTool\<close> returns and
  \<open>ToolManager\<close> raises \<open>e\<close>; when both return it returns the agent with the tool
  registered. An exception of the configuration leaves \<open>main\<close> uncaught, before \<open>run\<close> is
  called and with nothing printed.
\<close>

theorem configuration_raises_only_in_constructors:
  "(environ ''TAVILY_API_KEY'' = None \<or> environ ''TAVILY_API_KEY'' = Some [] \<longrightarrow>
      main_agent framework environ chatbot agent0 =
        Inr (agent0\<lparr>llm := chatbot, system_prompt := ''You are a helpful AI assistant.''\<rparr>)) \<and>
   (main_agent framework environ chatbot agent0 = Inl e \<longleftrightarrow>
      truthy (getenv environ ''TAVILY_API_KEY'') \<and>
      (MCPTool_init framework (search_tool environ) = Some e \<or>
       MCPTool_init framework (search_tool environ) = None \<and>
       ToolManager_init framework [search_tool environ] = Some e)) \<and>
   (truthy (getenv environ ''TAVILY_API_KEY'') \<longrightarrow>
    MCPTool_init framework (search_tool environ) = None \<longrightarrow>
    ToolManager_init framework [search_tool environ] = None \<longrightarrow>
      main_agent framework environ chatbot agent0 =
        Inr (register_tools (ToolManager [search_tool environ])
          (agent0\<lparr>llm := chatbot, system_prompt := ''You are a helpful AI assistant.''\<rparr>))) \<and>
   (main_agent framework environ chatbot agent0 = Inl e \<longrightarrow>
      main framework run_impl environ chatbot agent0 out = \<lparr>stdout = out, uncaught = Some e\<rparr>)"
proof -
  have silent: "main_agent framework environ chatbot agent0 =
      Inr (agent0\<lparr>llm := chatbot, system_prompt := ''You are a helpful AI assistant.''\<rparr>)"
    if "environ ''TAVILY_API_KEY'' = None \<or> environ ''TAVILY_API_KEY'' = Some []"
  proof -
    from that have "\<not> truthy (getenv environ ''TAVILY_API_KEY'')"
      by (auto simp: truthy_getenv)
    then show ?thesis
      by (rule main_agent_skips)
  qed
  have propagates:
    "main framework run_impl environ chatbot agent0 out = \<lparr>stdout = out, uncaught = Some e\<rparr>"
    if "main_agent framework environ chatbot agent0 = Inl e"
    using that by (simp add: main_def)
  from silent propagates show ?thesis
    using main_agent_raised [of framework environ chatbot agent0 e]
      main_agent_registers [of environ framework chatbot agent0]
    by blast
qed

text \<open>
  No variable and constructors that would raise; the key \<open>"abc123"\<close> where \<open>MCPTool\<close>
  raises for \<open>"npx"\<close>; the key \<open>"abc123"\<close> and constructors that return.
\<close>

theorem configuration_raises_only_in_constructors_witness:
  "(Map.empty ''TAVILY_API_KEY'' = (None :: string option) \<or>
      Map.empty ''TAVILY_API_KEY'' = Some []) \<and>
   main_agent
       \<lparr>MCPTool_init = \<lambda>tool. Some ''ValueError'', ToolManager_init = \<lambda>tools. Some ''TypeError''\<rparr>
       Map.empty ()
       \<lparr>llm = (), system_prompt = '''', avaliable_tools = ToolManager []\<rparr> =
     Inr \<lparr>llm = (), system_prompt = ''You are a helpful AI assistant.'',
          avaliable_tools = ToolManager []\<rparr> \<and>
   truthy (getenv [''TAVILY_API_KEY'' \<mapsto> ''abc123''] ''TAVILY_API_KEY'') \<and>
   main_agent
       \<lparr>MCPTool_init =
          \<lambda>tool. if command (mcp_config tool) = ''npx'' then Some ''ValueError'' else None,
        ToolManager_init = \<lambda>tools. None\<rparr>
       [''TAVILY_API_KEY'' \<mapsto> ''abc123''] ()
       \<lparr>llm = (), system_prompt = '''', avaliable_tools = ToolManager []\<rparr> =
     Inl ''ValueError'' \<and>
   main
       \<lparr>MCPTool_init =
          \<lambda>tool. if command (mcp_config tool) = ''npx'' then Some ''ValueError'' else None,
        ToolManager_init = \<lambda>tools. None\<rparr>
       (\<lambda>agent query. Inr ''SpoonOS is an agent framework.'')
       [''TAVILY_API_KEY'' \<mapsto> ''abc123''] ()
       \<lparr>llm = (), system_prompt = '''', avaliable_tools = ToolManager []\<rparr> ''earlier output'' =
     \<lparr>stdout = ''earlier output'', uncaught = Some ''ValueError''\<rparr> \<and>
   main_agent
       \<lparr>MCPTool_init = \<lambda>tool. None :: string option, ToolManager_init = \<lambda>tools. None\<rparr>
       [''TAVILY_API_KEY'' \<mapsto> ''abc123''] ()
       \<lparr>llm = (), system_prompt = '''', avaliable_tools = ToolManager []\<rparr> =
     Inr \<lparr>llm = (), system_prompt = ''You are a helpful AI assistant.'',
          avaliable_tools = ToolManager [search_tool [''TAVILY_API_KEY'' \<mapsto> ''abc123'']]\<rparr>"
proof -
  have test: "truthy (getenv [''TAVILY_API_KEY'' \<mapsto> ''abc123''] ''TAVILY_API_KEY'')"
    by (simp add: getenv_def truthy_def)
  have no_npx: "MCPTool_init
      \<lparr>MCPTool_init =
          \<lambda>tool. if command (mcp_config tool) = ''npx'' then Some ''ValueError'' else None,
       ToolManager_init = \<lambda>tools. None\<rparr>
      (search_tool [''TAVILY_API_KEY'' \<mapsto> ''abc123'']) = Some ''ValueError''"
    by (simp add: search_tool_def)
  show ?thesis
    using test no_npx
      configuration_raises_only_in_constructors [of Map.empty
        "\<lparr>MCPTool_init = \<lambda>tool. Some ''ValueError'',
          ToolManager_init = \<lambda>tools. Some ''TypeError''\<rparr>"
        "()" "\<lparr>llm = (), system_prompt = '''', avaliable_tools = ToolManager []\<rparr>"]
      configuration_raises_only_in_constructors [of "[''TAVILY_API_KEY'' \<mapsto> ''abc123'']"
        "\<lparr>MCPTool_init =
            \<lambda>tool. if command (mcp_config tool) = ''npx'' then Some ''ValueError'' else None,
          ToolManager_init = \<lambda>tools. None\<rparr>"
        "()" "\<lparr>llm = (), system_prompt = '''', avaliable_tools = ToolManager []\<rparr>"
        "''ValueError''" "\<lambda>agent query. Inr ''SpoonOS is an agent framework.''"
        "''earlier output''"]
      configuration_raises_only_in_constructors [of "[''TAVILY_API_KEY'' \<mapsto> ''abc123'']"
        "\<lparr>MCPTool_init = \<lambda>tool. None :: string option, ToolManager_init = \<lambda>tools. None\<rparr>"
        "()" "\<lparr>llm = (), system_prompt = '''', avaliable_tools = ToolManager []\<rparr>"]
    by (simp add: register_tools_def)
qed

text \<open>
  C5: with a chat backend that answers every request with the request behind a fixed
  prefix, \<open>run\<close> on the configured agent returns the prefix followed by the query
  \<open>"Hello! What is SpoonOS?"\<close>, and \<open>main\<close> writes that text and a newline to standard
  output and ends normally. The configuration has returned for \<open>run\<close> to be called; with
  the variable unset it always has.
\<close>

theorem main_prints_echo:
  "(main_agent framework environ (\<lambda>request. Some (prefix @ request)) agent0 = Inr agent \<longrightarrow>
      run agent ''Hello! What is SpoonOS?'' = Inr (prefix @ ''Hello! What is SpoonOS?'') \<and>
      main framework run environ (\<lambda>request. Some (prefix @ request)) agent0 out =
        \<lparr>stdout = out @ prefix @ ''Hello! What is SpoonOS?'' @ [CHR 0x0A], uncaught = None\<rparr>) \<and>
   (environ ''TAVILY_API_KEY'' = None \<longrightarrow>
      main framework run environ (\<lambda>request. Some (prefix @ request)) agent0 out =
        \<lparr>stdout = out @ prefix @ ''Hello! What is SpoonOS?'' @ [CHR 0x0A], uncaught = None\<rparr>)"
proof -
  have echo: "run agent ''Hello! What is SpoonOS?'' = Inr (prefix @ ''Hello! What is SpoonOS?'')"
    if "main_agent framework environ (\<lambda>request. Some (prefix @ request)) agent0 = Inr agent"
    for agent
  proof -
    from main_agent_returned [OF that]
    have "llm agent = (\<lambda>request. Some (prefix @ request))"
      by (auto simp: register_tools_def)
    then show ?thesis
      by (simp add: run_def)
  qed
  have printed: "main framework run environ (\<lambda>request. Some (prefix @ request)) agent0 out =
      \<lparr>stdout = out @ prefix @ ''Hello! What is SpoonOS?'' @ [CHR 0x0A], uncaught = None\<rparr>"
    if "main_agent framework environ (\<lambda>request. Some (prefix @ request)) agent0 = Inr agent"
    for agent
    using that echo [OF that] by (simp add: main_def print_def)
  have "main_agent framework environ (\<lambda>request. Some (prefix @ request)) agent0 =
      Inr (agent0\<lparr>llm := \<lambda>request. Some (prefix @ request),
        system_prompt := ''You are a helpful AI assistant.''\<rparr>)"
    if "environ ''TAVILY_API_KEY'' = None"
    using that by (simp add: main_agent_skips getenv_unset truthy_def)
  with echo printed show ?thesis
    by blast
qed

text \<open>The prefix \<open>"echo: "\<close>, with the key set and constructors that return, and with no key.\<close>

theorem main_prints_echo_witness:
  "main_agent
       \<lparr>MCPTool_init = \<lambda>tool. None :: error option, ToolManager_init = \<lambda>tools. None\<rparr>
       [''TAVILY_API_KEY'' \<mapsto> ''abc123''] (\<lambda>request. Some (''echo: '' @ request))
       (SpoonReactAI (\<lambda>request. None) '''') =
     Inr \<lparr>llm = \<lambda>request. Some (''echo: '' @ request),
          system_prompt = ''You are a helpful AI assistant.'',
          avaliable_tools = ToolManager [search_tool [''TAVILY_API_KEY'' \<mapsto> ''abc123'']]\<rparr> \<and>
   main
       \<lparr>MCPTool_init = \<lambda>tool. None :: error option, ToolManager_init = \<lambda>tools. None\<rparr>
       run [''TAVILY_API_KEY'' \<mapsto> ''abc123''] (\<lambda>request. Some (''echo: '' @ request))
       (SpoonReactAI (\<lambda>request. None) '''') '''' =
     \<lparr>stdout = ''echo: Hello! What is SpoonOS?'' @ [CHR 0x0A], uncaught = None\<rparr> \<and>
   Map.empty ''TAVILY_API_KEY'' = (None :: string option) \<and>
   main
       \<lparr>MCPTool_init = \<lambda>tool. Some ToolInvocationError,
        ToolManager_init = \<lambda>tools. Some ToolInvocationError\<rparr>
       run Map.empty (\<lambda>request. Some (''echo: '' @ request))
       (SpoonReactAI (\<lambda>request. None) '''') '''' =
     \<lparr>stdout = ''echo: Hello! What is SpoonOS?'' @ [CHR 0x0A], uncaught = None\<rparr>"
proof -
  have returned: "main_agent
       \<lparr>MCPTool_init = \<lambda>tool. None :: error option, ToolManager_init = \<lambda>tools. None\<rparr>
       [''TAVILY_API_KEY'' \<mapsto> ''abc123''] (\<lambda>request. Some (''echo: '' @ request))
       (SpoonReactAI (\<lambda>request. None) '''') =
     Inr \<lparr>llm = \<lambda>request. Some (''echo: '' @ request),
          system_prompt = ''You are a helpful AI assistant.'',
          avaliable_tools = ToolManager [search_tool [''TAVILY_API_KEY'' \<mapsto> ''abc123'']]\<rparr>"
    by (simp add: main_agent_def getenv_def truthy_def register_tools_def SpoonReactAI_def)
  show ?thesis
    using returned
      main_prints_echo [of
        "\<lparr>MCPTool_init = \<lambda>tool. None :: error option, ToolManager_init = \<lambda>tools. None\<rparr>"
        "[''TAVILY_API_KEY'' \<mapsto> ''abc123'']" "''echo: ''" "SpoonReactAI (\<lambda>request. None) ''''"
        "\<lparr>llm = \<lambda>request. Some (''echo: '' @ request),
          system_prompt = ''You are a helpful AI assistant.'',
          avaliable_tools = ToolManager [search_tool [''TAVILY_API_KEY'' \<mapsto> ''abc123'']]\<rparr>"
        "''''"]
      main_prints_echo [of
        "\<lparr>MCPTool_init = \<lambda>tool. Some ToolInvocationError,
          ToolManager_init = \<lambda>tools. Some ToolInvocationError\<rparr>"
        Map.empty "''echo: ''" "SpoonReactAI (\<lambda>request. None) ''''" _ "''''"]
    by simp
qed

text \<open>
  C6: when \<open>run\<close> raises, \<open>main\<close> ends with that exception uncaught and standard output
  holds what it held before: nothing was printed. Whatever exception leaves \<open>main\<close>, of
  \<open>run\<close> or of a constructor before it, standard output is unchanged.
\<close>

theorem run_failure_propagates:
  "(main_agent framework environ chatbot agent0 = Inr agent \<longrightarrow>
    run_impl agent ''Hello! What is SpoonOS?'' = Inl e \<longrightarrow>
      main framework run_impl environ chatbot agent0 out = \<lparr>stdout = out, uncaught = Some e\<rparr>) \<and>
   (uncaught (main framework run_impl environ chatbot agent0 out) = Some e' \<longrightarrow>
      stdout (main framework run_impl environ chatbot agent0 out) = out)"
  by (simp add: main_def split: sum.split)

text \<open>A \<open>run\<close> that cannot reach its backend, after some earlier output.\<close>

theorem run_failure_propagates_witness:
  "main_agent
       \<lparr>MCPTool_init = \<lambda>tool. None :: error option, ToolManager_init = \<lambda>tools. None\<rparr>
       [''TAVILY_API_KEY'' \<mapsto> ''abc123''] ()
       \<lparr>llm = (), system_prompt = '''', avaliable_tools = ToolManager []\<rparr> =
     Inr \<lparr>llm = (), system_prompt = ''You are a helpful AI assistant.'',
          avaliable_tools = ToolManager [search_tool [''TAVILY_API_KEY'' \<mapsto> ''abc123'']]\<rparr> \<and>
   (\<lambda>agent query. Inl BackendUnavailable :: error + string)
       \<lparr>llm = (), system_prompt = ''You are a helpful AI assistant.'',
        avaliable_tools = ToolManager [search_tool [''TAVILY_API_KEY'' \<mapsto> ''abc123'']]\<rparr>
       ''Hello! What is SpoonOS?'' = Inl BackendUnavailable \<and>
   main
       \<lparr>MCPTool_init = \<lambda>tool. None :: error option, ToolManager_init = \<lambda>tools. None\<rparr>
       (\<lambda>agent query. Inl BackendUnavailable :: error + string)
       [''TAVILY_API_KEY'' \<mapsto> ''abc123''] ()
       \<lparr>llm = (), system_prompt = '''', avaliable_tools = ToolManager []\<rparr> ''earlier output'' =
     \<lparr>stdout = ''earlier output'', uncaught = Some BackendUnavailable\<rparr>"
proof -
  have returned: "main_agent
       \<lparr>MCPTool_init = \<lambda>tool. None :: error option, ToolManager_init = \<lambda>tools. None\<rparr>
       [''TAVILY_API_KEY'' \<mapsto> ''abc123''] ()
       \<lparr>llm = (), system_prompt = '''', avaliable_tools = ToolManager []\<rparr> =
     Inr \<lparr>llm = (), system_prompt = ''You are a helpful AI assistant.'',
          avaliable_tools = ToolManager [search_tool [''TAVILY_API_KEY'' \<mapsto> ''abc123'']]\<rparr>"
    by (simp add: main_agent_def getenv_def truthy_def register_tools_def)
  show ?thesis
    using returned
      run_failure_propagates [of
        "\<lparr>MCPTool_init = \<lambda>tool. None :: error option, ToolManager_init = \<lambda>tools. None\<rparr>"
        "[''TAVILY_API_KEY'' \<mapsto> ''abc123'']" "()"
        "\<lparr>llm = (), system_prompt = '''', avaliable_tools = ToolManager []\<rparr>"
        "\<lparr>llm = (), system_prompt = ''You are a helpful AI assistant.'',
          avaliable_tools = ToolManager [search_tool [''TAVILY_API_KEY'' \<mapsto> ''abc123'']]\<rparr>"
        "\<lambda>agent query. Inl BackendUnavailable :: error + string" BackendUnavailable
        "''earlier output''" BackendUnavailable]
    by simp
qed

end
